theory Spec2Isabelle
  imports Complex_Main "HOL-Library.Word" "HOL-Library.Sublist"
begin

unbundle bit_operations_syntax

section \<open>Data model (watcher\_core.hpp)\<close>

text \<open>
  The embedding follows \<^verbatim>\<open>watcher_core.hpp\<close> and \<^verbatim>\<open>watcher_core.cpp\<close>.
  Conventions:
  \<^item> a C++ member \<^verbatim>\<open>x_\<close> is the record field \<open>x_'\<close> (an Isabelle name cannot end
    with an underscore);
  \<^item> \<^verbatim>\<open>uint64_t\<close>, \<^verbatim>\<open>size_t\<close> and pointers are \<open>64 word\<close>,
    \<^verbatim>\<open>uint32_t\<close> and \<^verbatim>\<open>pid_t\<close> are \<open>32 word\<close>, a byte is \<open>8 word\<close>;
  \<^item> clock readings (\<^verbatim>\<open>time_since_epoch().count()\<close>, a signed tick count) are \<open>int\<close>;
  \<^item> everything the operating system decides (results of \<^verbatim>\<open>syscall\<close>, \<^verbatim>\<open>ioctl\<close>,
    the clock, the bytes of the watched page, the content of \<^verbatim>\<open>/proc\<close>) is an explicit
    argument of the operation that asks for it;
  \<^item> the operations are modelled one call at a time (each runs under its mutex in the
    source); interleavings of calls are lists of steps.
\<close>

type_synonym byte = "8 word"
type_synonym addr = "64 word"

definition PAGE_SIZE :: "64 word" where
  "PAGE_SIZE = 4096"

definition EVENT_QUEUE_CAPACITY :: "64 word" where
  "EVENT_QUEUE_CAPACITY = 10000"

text \<open>\<^verbatim>\<open>UFFD_EVENT_PAGEFAULT\<close> of \<^verbatim>\<open>linux/userfaultfd.h\<close> (not part of the repository).\<close>

definition UFFD_EVENT_PAGEFAULT :: "8 word" where
  "UFFD_EVENT_PAGEFAULT = 0x12"

datatype State = UNINITIALIZED | INITIALIZED | RUNNING | PAUSED | STOPPED | ERROR

record MutationDepth =
  full_page :: bool
  byte_range :: "64 word"

record FastPathEvent =
  event_id :: string
  ts_ns :: "64 word"
  page_base :: addr
  fault_addr :: addr
  tid :: "32 word"
  ip :: "64 word"

text \<open>
  \<^verbatim>\<open>EnrichedEvent\<close> repeats the six fields of \<^verbatim>\<open>FastPathEvent\<close> and adds the
  enrichment; the record extends \<open>FastPathEvent\<close> so that the shared fields keep
  their names.
\<close>

record EnrichedEvent = FastPathEvent +
  symbol :: string
  "file" :: string
  line :: int
  pre_snapshot :: "byte list"
  post_snapshot :: "byte list"
  deltas :: "(64 word \<times> byte list \<times> byte list) list"
  variable_ids :: "string list"
  sql_context_id :: string

text \<open>
  \<^verbatim>\<open>VariableMetadata\<close>; its \<^verbatim>\<open>page_base\<close> is the field \<open>var_page_base\<close>
  (the name \<open>page_base\<close> is the event's).
\<close>

record VariableMetadata =
  variable_id :: string
  var_page_base :: addr
  page_size :: "64 word"
  name :: string
  flags :: "32 word"
  mutation_depth :: MutationDepth
  initial_snapshot :: "byte list"
  registered_at :: int

record Metrics =
  events_received :: "64 word"
  events_processed :: "64 word"
  events_dropped :: "64 word"
  callbacks_failed :: "64 word"
  mean_latency_ms :: real
  queue_depth :: "32 word"

section \<open>The event queue (class EventQueue)\<close>

text \<open>
  The linked list from the sentinel \<^verbatim>\<open>head_\<close> to \<^verbatim>\<open>tail_\<close> is the list \<open>nodes_'\<close>
  of the events stored in the nodes after the sentinel, oldest first. The counter
  \<^verbatim>\<open>size_\<close> is kept as its own field, as in the source: \<^verbatim>\<open>enqueue\<close> decides on
  \<^verbatim>\<open>size_\<close>, \<^verbatim>\<open>dequeue\<close> on the list.
\<close>

record EventQueue =
  nodes_' :: "FastPathEvent list"
  capacity_' :: "64 word"
  size_' :: "64 word"

definition EventQueue_new :: "64 word \<Rightarrow> EventQueue" where
  "EventQueue_new capacity = \<lparr>nodes_' = [], capacity_' = capacity, size_' = 0\<rparr>"

definition enqueue :: "EventQueue \<Rightarrow> FastPathEvent \<Rightarrow> bool \<times> EventQueue" where
  "enqueue q ev =
     (if size_' q \<ge> capacity_' q then (False, q)
      else (True, q\<lparr>nodes_' := nodes_' q @ [ev], size_' := size_' q + 1\<rparr>))"

text \<open>\<^verbatim>\<open>dequeue\<close> returns \<^verbatim>\<open>false\<close> (here \<open>None\<close>) when the sentinel has no successor.\<close>

definition dequeue :: "EventQueue \<Rightarrow> FastPathEvent option \<times> EventQueue" where
  "dequeue q =
     (case nodes_' q of
        [] \<Rightarrow> (None, q)
      | ev # rest \<Rightarrow> (Some ev, q\<lparr>nodes_' := rest, size_' := size_' q - 1\<rparr>))"

definition size_queue :: "EventQueue \<Rightarrow> 64 word" where
  "size_queue q = size_' q"

section \<open>The core (class WatcherCoreImpl)\<close>

text \<open>
  \<open>event_queue_'\<close> is the \<^verbatim>\<open>unique_ptr\<close> (null before \<^verbatim>\<open>initialize\<close>);
  \<open>handler_thread_'\<close> and \<open>slow_path_thread_'\<close> record whether the thread object is
  joinable; \<open>counter\<close> is the function-local static counter of \<^verbatim>\<open>registerPage\<close>.
  The symbol cache is not used by any operation below and is left out.
\<close>

record WatcherCoreImpl =
  state_' :: State
  error_message_' :: string
  output_dir_' :: string
  event_queue_' :: "EventQueue option"
  variables_' :: "string \<rightharpoonup> VariableMetadata"
  uffd_' :: int
  handler_thread_' :: bool
  slow_path_thread_' :: bool
  running_' :: bool
  events_received_' :: "64 word"
  events_processed_' :: "64 word"
  events_dropped_' :: "64 word"
  counter :: "64 word"

definition WatcherCoreImpl_new :: WatcherCoreImpl where
  "WatcherCoreImpl_new =
     \<lparr>state_' = UNINITIALIZED, error_message_' = [], output_dir_' = [],
      event_queue_' = None, variables_' = Map.empty, uffd_' = - 1,
      handler_thread_' = False, slow_path_thread_' = False, running_' = False,
      events_received_' = 0, events_processed_' = 0, events_dropped_' = 0,
      counter = 0\<rparr>"

subsection \<open>Decimal output of numbers\<close>

function dec_digits :: "nat \<Rightarrow> string" where
  "dec_digits n =
     (if n < 10 then [char_of (48 + n)]
      else dec_digits (n div 10) @ [char_of (48 + n mod 10)])"
  by pat_completeness auto
termination
  by (relation "measure id") auto

declare dec_digits.simps [simp del]

definition to_string :: "int \<Rightarrow> string" where
  "to_string i = (if i < 0 then CHR ''-'' # dec_digits (nat (- i)) else dec_digits (nat i))"

subsection \<open>initialize\<close>

text \<open>What the operating system answers during \<^verbatim>\<open>initialize\<close>.\<close>

record init_os =
  userfaultfd_ret :: int
  userfaultfd_err :: string
  uffdio_api_ok :: bool
  uffdio_api_err :: string

definition initialize ::
  "WatcherCoreImpl \<Rightarrow> string \<Rightarrow> 64 word \<Rightarrow> init_os \<Rightarrow> bool \<times> WatcherCoreImpl" where
  "initialize s output_dir max_queue_size os =
     (if state_' s \<noteq> UNINITIALIZED
      then (False, s\<lparr>error_message_' := ''Core already initialized''\<rparr>)
      else
        let s1 = s\<lparr>output_dir_' := output_dir,
                   event_queue_' := Some (EventQueue_new max_queue_size),
                   uffd_' := userfaultfd_ret os\<rparr>
        in if userfaultfd_ret os < 0
           then (False, s1\<lparr>error_message_' := ''Failed to create userfaultfd: '' @ userfaultfd_err os,
                            state_' := ERROR\<rparr>)
           else if \<not> uffdio_api_ok os
           then (False, s1\<lparr>error_message_' := ''Failed to configure userfaultfd: '' @ uffdio_api_err os,
                            state_' := ERROR, uffd_' := - 1\<rparr>)
           else (True, s1\<lparr>state_' := INITIALIZED\<rparr>))"

subsection \<open>The variable registry\<close>

text \<open>
  \<^verbatim>\<open>registerPage\<close> builds three byte vectors of \<^verbatim>\<open>page_size\<close> bytes: the local
  \<^verbatim>\<open>snapshot(page_size)\<close> (before the null check), its copy into \<^verbatim>\<open>meta\<close>, and the
  copy of \<^verbatim>\<open>meta\<close> into the map entry. A vector that cannot be built ends the call
  with an exception instead of a return value. The strings and the map node, whose
  sizes do not depend on \<^verbatim>\<open>page_size\<close>, are taken to be allocated.
\<close>

datatype exception = length_error | bad_alloc

text \<open>
  \<^verbatim>\<open>max_size()\<close> of \<^verbatim>\<open>std::vector<uint8_t>\<close>: the C++ library's bound on a vector's
  length (not part of the repository), \<^verbatim>\<open>PTRDIFF_MAX\<close> on the 64-bit targets the core
  is built for. The constructor throws \<^verbatim>\<open>std::length_error\<close> above it.
\<close>

definition vector_max_size :: nat where
  "vector_max_size = 2 ^ 63 - 1"

text \<open>
  What \<^verbatim>\<open>registerPage\<close> gets from outside, in the order it asks: the clock for the id,
  the result of the \<^verbatim>\<open>UFFDIO_REGISTER\<close> ioctl (asked only in RUNNING and PAUSED),
  whether the buffer \<^verbatim>\<open>snapshot\<close> can be allocated, the memory of the process, from
  which \<^verbatim>\<open>memcpy\<close> copies \<^verbatim>\<open>page_size\<close> bytes (the caller guarantees that the range
  is readable), whether the copy of the snapshot in \<^verbatim>\<open>meta\<close> can be allocated, the
  clock for \<^verbatim>\<open>registered_at\<close>, and whether the copy of the snapshot in the map entry
  can be allocated. A vector of length 0 allocates nothing.
\<close>

record register_os =
  now_id :: int
  uffdio_register_ok :: bool
  snapshot_alloc_ok :: bool
  memory :: "addr \<Rightarrow> byte"
  meta_alloc_ok :: bool
  now_registered :: int
  store_alloc_ok :: bool

definition read_bytes :: "(addr \<Rightarrow> byte) \<Rightarrow> addr \<Rightarrow> 64 word \<Rightarrow> byte list" where
  "read_bytes m base n = map (\<lambda>i. m (base + of_nat i)) [0..<unat n]"

text \<open>
  The value-initialised \<^verbatim>\<open>VariableMetadata\<close> that \<^verbatim>\<open>variables_[variable_id]\<close> creates
  for a key that is not in the map.
\<close>

definition VariableMetadata_new :: VariableMetadata where
  "VariableMetadata_new =
     \<lparr>variable_id = [], var_page_base = 0, page_size = 0, name = [], flags = 0,
      mutation_depth = \<lparr>full_page = False, byte_range = 0\<rparr>,
      initial_snapshot = [], registered_at = 0\<rparr>"

text \<open>
  \<^verbatim>\<open>variables_[variable_id] = meta\<close> assigns member by member, in the order of
  declaration. When the copy of \<^verbatim>\<open>initial_snapshot\<close> cannot be allocated the
  assignment throws there: the entry exists, the six members before
  \<^verbatim>\<open>initial_snapshot\<close> are assigned, \<^verbatim>\<open>initial_snapshot\<close> and \<^verbatim>\<open>registered_at\<close> are
  not.
\<close>

definition partly_assigned :: "VariableMetadata option \<Rightarrow> VariableMetadata \<Rightarrow> VariableMetadata" where
  "partly_assigned entry meta =
     (case entry of None \<Rightarrow> VariableMetadata_new | Some m \<Rightarrow> m)
       \<lparr>variable_id := variable_id meta, var_page_base := var_page_base meta,
        page_size := page_size meta, name := name meta, flags := flags meta,
        mutation_depth := mutation_depth meta\<rparr>"

text \<open>
  The result is \<open>Inr\<close> of the returned id, or \<open>Inl\<close> of the exception thrown; the
  core is returned as the call leaves it in either case.
\<close>

definition registerPage ::
  "WatcherCoreImpl \<Rightarrow> addr \<Rightarrow> 64 word \<Rightarrow> string \<Rightarrow> 32 word \<Rightarrow> MutationDepth \<Rightarrow> register_os
     \<Rightarrow> (exception + string) \<times> WatcherCoreImpl" where
  "registerPage s base psize nm fl depth os =
     (if state_' s = STOPPED \<or> state_' s = ERROR then (Inr [], s)
      else
        let vid = ''var-'' @ to_string (now_id os) @ ''-'' @ dec_digits (unat (counter s));
            s1 = s\<lparr>counter := counter s + 1\<rparr>
        in if (state_' s = RUNNING \<or> state_' s = PAUSED) \<and> \<not> uffdio_register_ok os
           then (Inr [], s1)
           else if vector_max_size < unat psize
           then (Inl length_error, s1)
           else if psize \<noteq> 0 \<and> \<not> snapshot_alloc_ok os
           then (Inl bad_alloc, s1)
           else if base = 0
           then (Inr [], s1\<lparr>error_message_' := ''Cannot snapshot null page_base address''\<rparr>)
           else if psize \<noteq> 0 \<and> \<not> meta_alloc_ok os
           then (Inl bad_alloc, s1)
           else
             let meta = \<lparr>variable_id = vid, var_page_base = base, page_size = psize,
                         name = nm, flags = fl, mutation_depth = depth,
                         initial_snapshot = read_bytes (memory os) base psize,
                         registered_at = now_registered os\<rparr>
             in if psize \<noteq> 0 \<and> \<not> store_alloc_ok os
                then (Inl bad_alloc,
                      s1\<lparr>variables_' :=
                           (variables_' s1)(vid \<mapsto> partly_assigned (variables_' s1 vid) meta)\<rparr>)
                else (Inr vid, s1\<lparr>variables_' := (variables_' s1)(vid \<mapsto> meta)\<rparr>))"

definition unregisterPage :: "WatcherCoreImpl \<Rightarrow> string \<Rightarrow> bool \<times> WatcherCoreImpl" where
  "unregisterPage s vid =
     (case variables_' s vid of
        None \<Rightarrow> (False, s)
      | Some m \<Rightarrow> (True, s\<lparr>variables_' := (variables_' s)(vid := None)\<rparr>))"

definition readSnapshot :: "WatcherCoreImpl \<Rightarrow> string \<Rightarrow> byte list" where
  "readSnapshot s vid =
     (case variables_' s vid of
        None \<Rightarrow> []
      | Some m \<Rightarrow> initial_snapshot m)"

definition writeSnapshot :: "WatcherCoreImpl \<Rightarrow> string \<Rightarrow> byte list \<Rightarrow> bool \<times> WatcherCoreImpl" where
  "writeSnapshot s vid snapshot =
     (case variables_' s vid of
        None \<Rightarrow> (False, s)
      | Some m \<Rightarrow>
          (True, s\<lparr>variables_' := (variables_' s)(vid \<mapsto> m\<lparr>initial_snapshot := snapshot\<rparr>)\<rparr>))"

definition updateMetadata ::
  "WatcherCoreImpl \<Rightarrow> string \<Rightarrow> VariableMetadata \<Rightarrow> bool \<times> WatcherCoreImpl" where
  "updateMetadata s vid metadata =
     (case variables_' s vid of
        None \<Rightarrow> (False, s)
      | Some m \<Rightarrow> (True, s\<lparr>variables_' := (variables_' s)(vid \<mapsto> metadata)\<rparr>))"

subsection \<open>Lifecycle\<close>

definition start :: "WatcherCoreImpl \<Rightarrow> bool \<times> WatcherCoreImpl" where
  "start s =
     (if state_' s \<noteq> INITIALIZED
      then (False, s\<lparr>error_message_' := ''Core not initialized''\<rparr>)
      else (True, s\<lparr>running_' := True, state_' := RUNNING,
                     handler_thread_' := True, slow_path_thread_' := True\<rparr>))"

definition pause :: "WatcherCoreImpl \<Rightarrow> bool \<times> WatcherCoreImpl" where
  "pause s =
     (if state_' s \<noteq> RUNNING
      then (False, s\<lparr>error_message_' := ''Core not running''\<rparr>)
      else (True, s\<lparr>state_' := PAUSED\<rparr>))"

definition resume :: "WatcherCoreImpl \<Rightarrow> bool \<times> WatcherCoreImpl" where
  "resume s =
     (if state_' s \<noteq> PAUSED
      then (False, s\<lparr>error_message_' := ''Core not paused''\<rparr>)
      else (True, s\<lparr>state_' := RUNNING\<rparr>))"

text \<open>
  \<^verbatim>\<open>stop\<close>: past the guard it clears \<^verbatim>\<open>running_\<close>, sets STOPPED, sleeps while the
  handler thread is joinable and the timeout has not passed, and then detaches both
  threads if they are joinable; whatever the time waited, neither thread object is
  joinable afterwards.
\<close>

definition stop :: "WatcherCoreImpl \<Rightarrow> int \<Rightarrow> bool \<times> WatcherCoreImpl" where
  "stop s timeout_ms =
     (if state_' s = STOPPED \<or> state_' s = ERROR \<or> state_' s = UNINITIALIZED
      then (state_' s \<noteq> ERROR, s)
      else (True, s\<lparr>running_' := False, state_' := STOPPED,
                     handler_thread_' := False, slow_path_thread_' := False\<rparr>))"

definition getState :: "WatcherCoreImpl \<Rightarrow> State" where
  "getState s = state_' s"

definition getErrorMessage :: "WatcherCoreImpl \<Rightarrow> string" where
  "getErrorMessage s = error_message_' s"

text \<open>\<^verbatim>\<open>dequeueEvent\<close>: the body is \<^verbatim>\<open>return nullptr;\<close>.\<close>

definition dequeueEvent :: "WatcherCoreImpl \<Rightarrow> EnrichedEvent option \<times> WatcherCoreImpl" where
  "dequeueEvent s = (None, s)"

definition getMetrics :: "WatcherCoreImpl \<Rightarrow> Metrics" where
  "getMetrics s =
     \<lparr>events_received = events_received_' s,
      events_processed = events_processed_' s,
      events_dropped = events_dropped_' s,
      callbacks_failed = 0,
      mean_latency_ms = 0,
      queue_depth = (case event_queue_' s of None \<Rightarrow> 0 | Some q \<Rightarrow> ucast (size_queue q))\<rparr>"

subsection \<open>The fast path (handlerLoop, handlePageFault)\<close>

text \<open>
  A message read from the fault channel: \<^verbatim>\<open>msg.event\<close>,
  \<^verbatim>\<open>msg.arg.pagefault.address\<close> and \<^verbatim>\<open>msg.arg.pagefault.feat.ptid\<close>
  (\<^verbatim>\<open>struct uffd_msg\<close> of \<^verbatim>\<open>linux/userfaultfd.h\<close>).
\<close>

record uffd_msg =
  event :: "8 word"
  address :: addr
  ptid :: "32 word"

text \<open>
  What \<^verbatim>\<open>handlePageFault\<close> gets from outside while it handles one message: the value
  \<^verbatim>\<open>extractInstructionPointer\<close> parses from \<^verbatim>\<open>/proc/<tid>/syscall\<close> (0 when the
  file cannot be read or parsed), two clock readings, and whether each of the two
  \<^verbatim>\<open>UFFDIO_WRITEPROTECT\<close> ioctls (unprotect, then re-protect) succeeds.
  The timestamp \<^verbatim>\<open>count() * 1000000\<close> is stored in a \<^verbatim>\<open>uint64_t\<close>: the product
  is taken modulo \<open>2 ^ 64\<close>.
\<close>

record fault_os =
  extracted_ip :: "64 word"
  now_event_id :: int
  now_ts :: int
  unprotect_ok :: bool
  reprotect_ok :: bool

definition make_event :: "uffd_msg \<Rightarrow> fault_os \<Rightarrow> FastPathEvent" where
  "make_event msg os =
     \<lparr>event_id = ''evt-'' @ to_string (now_event_id os),
      ts_ns = word_of_int (now_ts os * 1000000),
      page_base = address msg AND NOT (PAGE_SIZE - 1),
      fault_addr = address msg,
      tid = ptid msg,
      ip = extracted_ip os\<rparr>"

text \<open>
  \<^verbatim>\<open>handlePageFault\<close> dereferences \<^verbatim>\<open>event_queue_\<close>; on a core that was never
  initialised the pointer is null and the call has no result (\<open>None\<close>).
\<close>

definition handlePageFault :: "WatcherCoreImpl \<Rightarrow> uffd_msg \<Rightarrow> fault_os \<Rightarrow> WatcherCoreImpl option" where
  "handlePageFault s msg os =
     (case event_queue_' s of
        None \<Rightarrow> None
      | Some q \<Rightarrow>
          let (ok, q') = enqueue q (make_event msg os);
              s1 = s\<lparr>event_queue_' := Some q'\<rparr>;
              s2 = (if \<not> ok then s1\<lparr>events_dropped_' := events_dropped_' s1 + 1\<rparr>
                    else s1\<lparr>events_received_' := events_received_' s1 + 1\<rparr>)
          in if \<not> unprotect_ok os then Some (s2\<lparr>events_dropped_' := events_dropped_' s2 + 1\<rparr>)
             else if \<not> reprotect_ok os then Some (s2\<lparr>events_dropped_' := events_dropped_' s2 + 1\<rparr>)
             else Some s2)"

text \<open>The \<^verbatim>\<open>for\<close> loop of \<^verbatim>\<open>handlerLoop\<close> over the messages of one read.\<close>

fun handle_msgs :: "WatcherCoreImpl \<Rightarrow> (uffd_msg \<times> fault_os) list \<Rightarrow> WatcherCoreImpl option" where
  "handle_msgs s [] = Some s"
| "handle_msgs s ((msg, os) # rest) =
     (if event msg AND UFFD_EVENT_PAGEFAULT \<noteq> 0
      then (case handlePageFault s msg os of
              None \<Rightarrow> None
            | Some s' \<Rightarrow> handle_msgs s' rest)
      else handle_msgs s rest)"

text \<open>
  One turn of the \<^verbatim>\<open>while (running_)\<close> loop of \<^verbatim>\<open>handlerLoop\<close>: \<^verbatim>\<open>poll\<close>
  returns \<open>poll_ret\<close>; when it is positive, \<^verbatim>\<open>read\<close> delivers the messages
  (none when it fails or would block).
\<close>

definition handlerLoop_turn ::
  "WatcherCoreImpl \<Rightarrow> int \<Rightarrow> (uffd_msg \<times> fault_os) list \<Rightarrow> WatcherCoreImpl option" where
  "handlerLoop_turn s poll_ret msgs =
     (if \<not> running_' s then Some s
      else if poll_ret \<le> 0 then Some s
      else handle_msgs s msgs)"

text \<open>One turn of \<^verbatim>\<open>slowPathLoop\<close>: the body only sleeps.\<close>

definition slowPathLoop_turn :: "WatcherCoreImpl \<Rightarrow> WatcherCoreImpl" where
  "slowPathLoop_turn s = s"

section \<open>Sequences of operations\<close>

text \<open>The events waiting in the core's queue (none when there is no queue).\<close>

definition queued :: "WatcherCoreImpl \<Rightarrow> FastPathEvent list" where
  "queued s = (case event_queue_' s of None \<Rightarrow> [] | Some q \<Rightarrow> nodes_' q)"

text \<open>
  The number of times \<^verbatim>\<open>handlePageFault\<close> counts a drop for a failed
  \<^verbatim>\<open>UFFDIO_WRITEPROTECT\<close>: once when the unprotect step fails (the function returns
  there), once when the unprotect step succeeds and the re-protect step fails.
\<close>

definition ioctl_failed :: "fault_os \<Rightarrow> bool" where
  "ioctl_failed os = (\<not> (unprotect_ok os \<and> reprotect_ok os))"

definition ioctl_drops :: "fault_os \<Rightarrow> 64 word" where
  "ioctl_drops os = (if ioctl_failed os then 1 else 0)"

text \<open>A sequence of calls on one \<^verbatim>\<open>EventQueue\<close>.\<close>

datatype queue_op = Enqueue FastPathEvent | Dequeue

fun apply_queue_op :: "EventQueue \<Rightarrow> queue_op \<Rightarrow> EventQueue" where
  "apply_queue_op q (Enqueue ev) = snd (enqueue q ev)"
| "apply_queue_op q Dequeue = snd (dequeue q)"

definition run_queue_ops :: "EventQueue \<Rightarrow> queue_op list \<Rightarrow> EventQueue" where
  "run_queue_ops q ops = foldl apply_queue_op q ops"

text \<open>
  \<^verbatim>\<open>size_\<close> counts the nodes after the sentinel and stays within the capacity.
\<close>

definition queue_consistent :: "EventQueue \<Rightarrow> bool" where
  "queue_consistent q \<longleftrightarrow> unat (size_' q) = length (nodes_' q) \<and> size_' q \<le> capacity_' q"

text \<open>
  The producer and the consumer side of the core's queue, interleaved: \<open>Fault\<close> is one
  call of \<^verbatim>\<open>handlePageFault\<close>, \<open>Consume\<close> one call of \<^verbatim>\<open>EventQueue::dequeue\<close> on
  \<^verbatim>\<open>event_queue_\<close> by the consumer, which keeps the event it gets. (The worker
  \<^verbatim>\<open>slowPathLoop\<close> as written never calls \<^verbatim>\<open>dequeue\<close>: its runs are the sequences
  without \<open>Consume\<close>.)
\<close>

datatype pipeline_step = Fault uffd_msg fault_os | Consume

definition consume :: "WatcherCoreImpl \<Rightarrow> (FastPathEvent option \<times> WatcherCoreImpl) option" where
  "consume s =
     (case event_queue_' s of
        None \<Rightarrow> None
      | Some q \<Rightarrow> Some (fst (dequeue q), s\<lparr>event_queue_' := Some (snd (dequeue q))\<rparr>))"

fun run_steps ::
  "WatcherCoreImpl \<Rightarrow> FastPathEvent list \<Rightarrow> pipeline_step list
     \<Rightarrow> (WatcherCoreImpl \<times> FastPathEvent list) option" where
  "run_steps s out [] = Some (s, out)"
| "run_steps s out (Fault msg os # rest) =
     (case handlePageFault s msg os of
        None \<Rightarrow> None
      | Some s' \<Rightarrow> run_steps s' out rest)"
| "run_steps s out (Consume # rest) =
     (case consume s of
        None \<Rightarrow> None
      | Some (None, s') \<Rightarrow> run_steps s' out rest
      | Some (Some ev, s') \<Rightarrow> run_steps s' (out @ [ev]) rest)"

fun n_faults :: "pipeline_step list \<Rightarrow> nat" where
  "n_faults [] = 0"
| "n_faults (Fault msg os # rest) = Suc (n_faults rest)"
| "n_faults (Consume # rest) = n_faults rest"

fun n_ioctl_failures :: "pipeline_step list \<Rightarrow> nat" where
  "n_ioctl_failures [] = 0"
| "n_ioctl_failures (Fault msg os # rest) =
     (if ioctl_failed os then Suc (n_ioctl_failures rest) else n_ioctl_failures rest)"
| "n_ioctl_failures (Consume # rest) = n_ioctl_failures rest"

text \<open>
  The guards of \<^verbatim>\<open>registerPage\<close> that return the empty id before anything is
  allocated: the state guard and the result of the ioctl.
\<close>

definition register_refused :: "WatcherCoreImpl \<Rightarrow> register_os \<Rightarrow> bool" where
  "register_refused s os \<longleftrightarrow>
     state_' s = STOPPED \<or> state_' s = ERROR \<or>
     ((state_' s = RUNNING \<or> state_' s = PAUSED) \<and> \<not> uffdio_register_ok os)"

text \<open>The exception, if any, with which the construction of \<^verbatim>\<open>snapshot(page_size)\<close> ends.\<close>

definition snapshot_exception :: "64 word \<Rightarrow> register_os \<Rightarrow> exception option" where
  "snapshot_exception psize os =
     (if vector_max_size < unat psize then Some length_error
      else if psize \<noteq> 0 \<and> \<not> snapshot_alloc_ok os then Some bad_alloc
      else None)"

text \<open>Whether the two later copies of the snapshot can be made.\<close>

definition copies_allocated :: "64 word \<Rightarrow> register_os \<Rightarrow> bool" where
  "copies_allocated psize os \<longleftrightarrow> psize = 0 \<or> (meta_alloc_ok os \<and> store_alloc_ok os)"

section \<open>Example inputs\<close>

definition os_ok :: init_os where
  "os_ok = \<lparr>userfaultfd_ret = 3, userfaultfd_err = [], uffdio_api_ok = True, uffdio_api_err = []\<rparr>"

definition os_no_userfaultfd :: init_os where
  "os_no_userfaultfd =
     \<lparr>userfaultfd_ret = - 1, userfaultfd_err = ''Operation not permitted'',
      uffdio_api_ok = False, uffdio_api_err = []\<rparr>"

definition core_initialized :: WatcherCoreImpl where
  "core_initialized = snd (initialize WatcherCoreImpl_new ''/tmp/x'' 2 os_ok)"

definition core_error :: WatcherCoreImpl where
  "core_error = snd (initialize WatcherCoreImpl_new ''/tmp/x'' 2 os_no_userfaultfd)"

definition core_running :: WatcherCoreImpl where
  "core_running = snd (start core_initialized)"

definition core_paused :: WatcherCoreImpl where
  "core_paused = snd (pause core_running)"

definition zero_memory :: "addr \<Rightarrow> byte" where
  "zero_memory a = 0"

definition reg_os :: register_os where
  "reg_os =
     \<lparr>now_id = 1000, uffdio_register_ok = True, snapshot_alloc_ok = True,
      memory = zero_memory, meta_alloc_ok = True, now_registered = 1001,
      store_alloc_ok = True\<rparr>"

definition reg_os_no_memory :: register_os where
  "reg_os_no_memory =
     \<lparr>now_id = 1000, uffdio_register_ok = True, snapshot_alloc_ok = True,
      memory = zero_memory, meta_alloc_ok = False, now_registered = 1001,
      store_alloc_ok = False\<rparr>"

definition whole_page :: MutationDepth where
  "whole_page = \<lparr>full_page = True, byte_range = 0\<rparr>"

definition core_registered :: WatcherCoreImpl where
  "core_registered = snd (registerPage core_initialized 0x10000 4 ''v'' 1 whole_page reg_os)"

definition other_metadata :: VariableMetadata where
  "other_metadata =
     \<lparr>variable_id = ''other'', var_page_base = 0x20000, page_size = 8, name = ''w'',
      flags = 2, mutation_depth = whole_page, initial_snapshot = [], registered_at = 7\<rparr>"

definition fault_msg :: uffd_msg where
  "fault_msg = \<lparr>event = 0x12, address = 0x10080, ptid = 7\<rparr>"

definition fault_os_ok :: fault_os where
  "fault_os_ok =
     \<lparr>extracted_ip = 0x401000, now_event_id = 2000, now_ts = 2001,
      unprotect_ok = True, reprotect_ok = True\<rparr>"

definition fault_os_unprotect_fails :: fault_os where
  "fault_os_unprotect_fails =
     \<lparr>extracted_ip = 0x401000, now_event_id = 2000, now_ts = 2001,
      unprotect_ok = False, reprotect_ok = True\<rparr>"

definition fault_event :: FastPathEvent where
  "fault_event =
     \<lparr>event_id = ''evt-2000'', ts_ns = 2001000000, page_base = 0x10000,
      fault_addr = 0x10080, tid = 7, ip = 0x401000\<rparr>"

definition core_watching :: WatcherCoreImpl where
  "core_watching = snd (registerPage core_running 0x10000 4096 ''v'' 1 whole_page reg_os)"

definition event_a :: FastPathEvent where
  "event_a =
     \<lparr>event_id = ''evt-1'', ts_ns = 1000000, page_base = 0x10000,
      fault_addr = 0x10010, tid = 7, ip = 0\<rparr>"

definition full_queue :: EventQueue where
  "full_queue = \<lparr>nodes_' = [fault_event, fault_event], capacity_' = 2, size_' = 2\<rparr>"

definition core_full :: WatcherCoreImpl where
  "core_full = core_running\<lparr>event_queue_' := Some full_queue, events_received_' := 2\<rparr>"

definition example_steps :: "pipeline_step list" where
  "example_steps =
     [Fault fault_msg fault_os_ok, Consume, Fault fault_msg fault_os_unprotect_fails,
      Fault fault_msg fault_os_ok, Fault fault_msg fault_os_ok, Consume]"

section \<open>Auxiliary facts\<close>

lemma dec_digits_nonempty: "dec_digits n \<noteq> []"
  by (subst dec_digits.simps) simp

lemma to_string_1000: "to_string 1000 = ''1000''"
  by code_simp

lemma dec_digits_0: "dec_digits 0 = ''0''"
  by code_simp

lemma sublist_not_initialized: "sublist ''not initialized'' ''Core not initialized''"
  by (simp add: sublist_Cons_right prefix_def)

lemma state_core_initialized: "state_' core_initialized = INITIALIZED"
  by (simp add: core_initialized_def initialize_def WatcherCoreImpl_new_def os_ok_def Let_def)

lemma state_core_error: "getState core_error = ERROR"
  by (simp add: getState_def core_error_def initialize_def WatcherCoreImpl_new_def
      os_no_userfaultfd_def Let_def)

lemma read_bytes_zero_4: "read_bytes zero_memory b 4 = [0, 0, 0, 0]"
  by (simp add: read_bytes_def zero_memory_def upt_rec)

lemma core_registered_variables:
  "variables_' core_registered =
     [''var-1000-0'' \<mapsto>
        \<lparr>variable_id = ''var-1000-0'', var_page_base = 0x10000, page_size = 4, name = ''v'',
         flags = 1, mutation_depth = whole_page, initial_snapshot = [0, 0, 0, 0],
         registered_at = 1001\<rparr>]"
  by (simp add: core_registered_def registerPage_def state_core_initialized Let_def reg_os_def
      vector_max_size_def to_string_1000 dec_digits_0 read_bytes_zero_4 core_initialized_def initialize_def
      WatcherCoreImpl_new_def os_ok_def)

lemma read_bytes_length: "length (read_bytes m base n) = unat n"
  by (simp add: read_bytes_def)

section \<open>Facts about the event queue and the fast path\<close>

lemma queue_consistent_new: "queue_consistent (EventQueue_new cap)"
  by (simp add: queue_consistent_def EventQueue_new_def)

lemma word_succ_below: "(x :: 64 word) < y \<Longrightarrow> unat (x + 1) = Suc (unat x) \<and> x + 1 \<le> y"
  by unat_arith

lemma queue_consistent_enqueue:
  "queue_consistent q \<Longrightarrow> queue_consistent (snd (enqueue q ev))"
  using word_succ_below [of "size_' q" "capacity_' q"]
  by (auto simp add: queue_consistent_def enqueue_def not_le)

lemma word_pred_pos: "unat (x :: 64 word) = Suc n \<Longrightarrow> unat (x - 1) = n \<and> x - 1 \<le> x"
  by unat_arith

lemma queue_consistent_dequeue:
  "queue_consistent q \<Longrightarrow> queue_consistent (snd (dequeue q))"
  by (auto simp add: queue_consistent_def dequeue_def split: list.splits dest!: word_pred_pos)

lemma capacity_enqueue: "capacity_' (snd (enqueue q ev)) = capacity_' q"
  by (simp add: enqueue_def)

lemma capacity_dequeue: "capacity_' (snd (dequeue q)) = capacity_' q"
  by (simp add: dequeue_def split: list.splits)

lemma run_queue_ops_invariant:
  "queue_consistent q \<Longrightarrow>
     queue_consistent (run_queue_ops q ops) \<and> capacity_' (run_queue_ops q ops) = capacity_' q"
proof (induction ops arbitrary: q)
  case Nil
  then show ?case by (simp add: run_queue_ops_def)
next
  case (Cons op ops)
  have step: "queue_consistent (apply_queue_op q op) \<and> capacity_' (apply_queue_op q op) = capacity_' q"
    using Cons.prems
    by (cases op) (simp_all add: queue_consistent_enqueue queue_consistent_dequeue
        capacity_enqueue capacity_dequeue)
  with Cons.IH [of "apply_queue_op q op"] show ?case
    by (simp add: run_queue_ops_def)
qed

lemma enqueue_full: "capacity_' q \<le> size_' q \<Longrightarrow> enqueue q ev = (False, q)"
  by (simp add: enqueue_def)

lemma enqueue_room:
  "size_' q < capacity_' q \<Longrightarrow>
     enqueue q ev = (True, q\<lparr>nodes_' := nodes_' q @ [ev], size_' := size_' q + 1\<rparr>)"
  by (simp add: enqueue_def not_le [symmetric])

lemma handlePageFault_full:
  "event_queue_' s = Some q \<Longrightarrow> capacity_' q \<le> size_' q \<Longrightarrow>
     handlePageFault s msg os =
       Some (s\<lparr>events_dropped_' := events_dropped_' s + 1 + ioctl_drops os\<rparr>)"
  by (cases s) (auto simp add: handlePageFault_def enqueue_full ioctl_drops_def ioctl_failed_def Let_def)

lemma handlePageFault_room:
  "event_queue_' s = Some q \<Longrightarrow> size_' q < capacity_' q \<Longrightarrow>
     handlePageFault s msg os =
       Some (s\<lparr>event_queue_' :=
                  Some (q\<lparr>nodes_' := nodes_' q @ [make_event msg os], size_' := size_' q + 1\<rparr>),
               events_received_' := events_received_' s + 1,
               events_dropped_' := events_dropped_' s + ioctl_drops os\<rparr>)"
  by (cases s) (auto simp add: handlePageFault_def enqueue_room ioctl_drops_def ioctl_failed_def Let_def)

section \<open>Facts about the example inputs\<close>

lemma make_event_example: "make_event fault_msg fault_os_ok = fault_event"
  by (simp add: make_event_def fault_msg_def fault_os_ok_def fault_event_def PAGE_SIZE_def
      to_string_def) code_simp

lemma make_event_example_fail: "make_event fault_msg fault_os_unprotect_fails = fault_event"
  by (simp add: make_event_def fault_msg_def fault_os_unprotect_fails_def fault_event_def PAGE_SIZE_def
      to_string_def) code_simp

lemma core_running_fields:
  "event_queue_' core_running = Some (EventQueue_new 2)"
  "events_received_' core_running = 0"
  "events_dropped_' core_running = 0"
  "state_' core_running = RUNNING"
  "running_' core_running = True"
  "variables_' core_running = Map.empty"
  "counter core_running = 0"
  by (simp_all add: core_running_def start_def state_core_initialized)
     (simp_all add: core_initialized_def initialize_def WatcherCoreImpl_new_def os_ok_def Let_def)

lemma core_paused_fields:
  "event_queue_' core_paused = Some (EventQueue_new 2)"
  "events_received_' core_paused = 0"
  "events_dropped_' core_paused = 0"
  "state_' core_paused = PAUSED"
  "running_' core_paused = True"
  by (simp_all add: core_paused_def pause_def core_running_fields)

lemma core_full_reached:
  "handle_msgs core_running [(fault_msg, fault_os_ok), (fault_msg, fault_os_ok)] = Some core_full"
proof -
  have ev: "event fault_msg AND UFFD_EVENT_PAGEFAULT \<noteq> 0"
    by (simp add: fault_msg_def UFFD_EVENT_PAGEFAULT_def)
  have d: "ioctl_drops fault_os_ok = 0"
    by (simp add: ioctl_drops_def ioctl_failed_def fault_os_ok_def)
  have one: "handlePageFault core_running fault_msg fault_os_ok =
      Some (core_running\<lparr>event_queue_' :=
              Some \<lparr>nodes_' = [fault_event], capacity_' = 2, size_' = 1\<rparr>,
            events_received_' := 1\<rparr>)"
    by (cases core_running)
      (use core_running_fields in \<open>simp add: handlePageFault_room [where q = "EventQueue_new 2"]
        EventQueue_new_def make_event_example d\<close>)
  have two: "handlePageFault (core_running\<lparr>event_queue_' :=
              Some \<lparr>nodes_' = [fault_event], capacity_' = 2, size_' = 1\<rparr>,
            events_received_' := 1\<rparr>) fault_msg fault_os_ok = Some core_full"
    by (cases core_running)
      (simp add: handlePageFault_room [where q = "\<lparr>nodes_' = [fault_event], capacity_' = 2, size_' = 1\<rparr>"]
        make_event_example d core_full_def full_queue_def)
  show ?thesis using ev one two by simp
qed

lemma consume_some:
  "event_queue_' s = Some q \<Longrightarrow>
     consume s = Some (fst (dequeue q), s\<lparr>event_queue_' := Some (snd (dequeue q))\<rparr>)"
  by (simp add: consume_def)

lemma dequeue_length:
  "length (nodes_' q) = (case fst (dequeue q) of None \<Rightarrow> 0 | Some ev \<Rightarrow> 1) + length (nodes_' (snd (dequeue q)))"
  by (simp add: dequeue_def split: list.splits)

text \<open>
  The accounting behind the metrics: along any run, with \<open>k\<close> the number of faults whose
  event was enqueued, the counters grow by \<open>k\<close> and by the remaining faults plus the
  failed ioctls, and every event is either still queued or was handed to the consumer.
\<close>

lemma run_steps_accounting:
  "event_queue_' s = Some q \<Longrightarrow> queue_consistent q \<Longrightarrow>
     \<exists>s' out' q' k.
       run_steps s out steps = Some (s', out') \<and>
       event_queue_' s' = Some q' \<and> queue_consistent q' \<and>
       k \<le> n_faults steps \<and>
       events_received_' s' = events_received_' s + of_nat k \<and>
       events_dropped_' s' =
         events_dropped_' s + of_nat (n_faults steps - k + n_ioctl_failures steps) \<and>
       length out' + length (nodes_' q') = length out + length (nodes_' q) + k"
proof (induction steps arbitrary: s out q)
  case Nil
  then show ?case by simp
next
  case (Cons st steps)
  show ?case
  proof (cases st)
    case (Fault msg os)
    show ?thesis
    proof (cases "size_' q < capacity_' q")
      case True
      let ?q1 = "q\<lparr>nodes_' := nodes_' q @ [make_event msg os], size_' := size_' q + 1\<rparr>"
      let ?s1 = "s\<lparr>event_queue_' := Some ?q1,
                   events_received_' := events_received_' s + 1,
                   events_dropped_' := events_dropped_' s + ioctl_drops os\<rparr>"
      have h: "handlePageFault s msg os = Some ?s1"
        using Cons.prems(1) True by (rule handlePageFault_room)
      have c: "queue_consistent ?q1"
        using queue_consistent_enqueue [OF Cons.prems(2), of "make_event msg os"] True
        by (simp add: enqueue_room)
      from Cons.IH [of ?s1 ?q1 out] c
      obtain s' out' q' k where
        r: "run_steps ?s1 out steps = Some (s', out')" and
        q': "event_queue_' s' = Some q'" "queue_consistent q'" and
        k: "k \<le> n_faults steps" and
        rec: "events_received_' s' = events_received_' ?s1 + of_nat k" and
        drp: "events_dropped_' s' =
           events_dropped_' ?s1 + of_nat (n_faults steps - k + n_ioctl_failures steps)" and
        len: "length out' + length (nodes_' q') = length out + length (nodes_' ?q1) + k"
        by auto
      have "run_steps s out (st # steps) = Some (s', out')"
        using Fault h r by simp
      moreover have "Suc k \<le> n_faults (st # steps)"
        using Fault k by simp
      moreover have "events_received_' s' = events_received_' s + of_nat (Suc k)"
        using rec by simp
      moreover have "events_dropped_' s' =
          events_dropped_' s + of_nat (n_faults (st # steps) - Suc k + n_ioctl_failures (st # steps))"
        using drp Fault by (simp add: ioctl_drops_def)
      moreover have "length out' + length (nodes_' q') = length out + length (nodes_' q) + Suc k"
        using len by simp
      ultimately show ?thesis using q' by blast
    next
      case False
      then have full: "capacity_' q \<le> size_' q" by simp
      let ?s1 = "s\<lparr>events_dropped_' := events_dropped_' s + 1 + ioctl_drops os\<rparr>"
      have h: "handlePageFault s msg os = Some ?s1"
        using Cons.prems(1) full by (rule handlePageFault_full)
      have e: "event_queue_' ?s1 = Some q"
        using Cons.prems(1) by simp
      from Cons.IH [OF e Cons.prems(2), of out]
      obtain s' out' q' k where
        r: "run_steps ?s1 out steps = Some (s', out')" and
        q': "event_queue_' s' = Some q'" "queue_consistent q'" and
        k: "k \<le> n_faults steps" and
        rec: "events_received_' s' = events_received_' ?s1 + of_nat k" and
        drp: "events_dropped_' s' =
           events_dropped_' ?s1 + of_nat (n_faults steps - k + n_ioctl_failures steps)" and
        len: "length out' + length (nodes_' q') = length out + length (nodes_' q) + k"
        by auto
      have "run_steps s out (st # steps) = Some (s', out')"
        using Fault h r by simp
      moreover have "k \<le> n_faults (st # steps)"
        using Fault k by simp
      moreover have "events_received_' s' = events_received_' s + of_nat k"
        using rec by simp
      moreover have "events_dropped_' s' =
          events_dropped_' s + of_nat (n_faults (st # steps) - k + n_ioctl_failures (st # steps))"
        using drp Fault k by (simp add: ioctl_drops_def Suc_diff_le)
      ultimately show ?thesis using q' len by blast
    qed
  next
    case Consume
    let ?q1 = "snd (dequeue q)"
    let ?s1 = "s\<lparr>event_queue_' := Some ?q1\<rparr>"
    let ?out1 = "case fst (dequeue q) of None \<Rightarrow> out | Some ev \<Rightarrow> out @ [ev]"
    have c: "queue_consistent ?q1"
      using Cons.prems(2) by (rule queue_consistent_dequeue)
    have step: "run_steps s out (st # steps) = run_steps ?s1 ?out1 steps"
      using Consume consume_some [OF Cons.prems(1)] by (simp split: option.splits)
    have l: "length ?out1 + length (nodes_' ?q1) = length out + length (nodes_' q)"
      using dequeue_length [of q] by (simp split: option.splits)
    from Cons.IH [of ?s1 ?q1 ?out1] c
    obtain s' out' q' k where
      r: "run_steps ?s1 ?out1 steps = Some (s', out')" and
      q': "event_queue_' s' = Some q'" "queue_consistent q'" and
      k: "k \<le> n_faults steps" and
      rec: "events_received_' s' = events_received_' ?s1 + of_nat k" and
      drp: "events_dropped_' s' =
         events_dropped_' ?s1 + of_nat (n_faults steps - k + n_ioctl_failures steps)" and
      len: "length out' + length (nodes_' q') = length ?out1 + length (nodes_' ?q1) + k"
      by auto
    have "run_steps s out (st # steps) = Some (s', out')"
      using step r by simp
    moreover have "k \<le> n_faults (st # steps)"
      using Consume k by simp
    moreover have "events_received_' s' = events_received_' s + of_nat k"
      using rec by simp
    moreover have "events_dropped_' s' =
        events_dropped_' s + of_nat (n_faults (st # steps) - k + n_ioctl_failures (st # steps))"
      using drp Consume by simp
    moreover have "length out' + length (nodes_' q') = length out + length (nodes_' q) + k"
      using len l by simp
    ultimately show ?thesis using q' by blast
  qed
qed

lemma unat_of_nat_64: "k < 2 ^ 64 \<Longrightarrow> unat (of_nat k :: 64 word) = k"
  by (simp add: unat_of_nat)

lemma slowPathLoop_turns: "(slowPathLoop_turn ^^ n) s = s"
  by (induction n) (simp_all add: slowPathLoop_turn_def)

lemma read_bytes_zero: "read_bytes zero_memory base n = replicate (unat n) 0"
  by (simp add: read_bytes_def zero_memory_def map_replicate_const)

lemma core_watching_fields:
  "state_' core_watching = RUNNING"
  "running_' core_watching = True"
  "event_queue_' core_watching = Some (EventQueue_new 2)"
  "events_received_' core_watching = 0"
  "variables_' core_watching =
     [''var-1000-0'' \<mapsto>
        \<lparr>variable_id = ''var-1000-0'', var_page_base = 0x10000, page_size = 4096, name = ''v'',
         flags = 1, mutation_depth = whole_page, initial_snapshot = replicate 4096 0,
         registered_at = 1001\<rparr>]"
  by (simp_all add: core_watching_def registerPage_def core_running_fields Let_def reg_os_def
      vector_max_size_def
      to_string_1000 dec_digits_0 read_bytes_zero)

text \<open>
  The queue of an initialised core is created with the capacity given to
  \<^verbatim>\<open>initialize\<close>, and a read of the handler loop whose messages are all page
  faults is the run of the corresponding \<open>Fault\<close> steps.
\<close>

lemma initialize_creates_queue:
  "state_' s = UNINITIALIZED \<Longrightarrow>
     event_queue_' (snd (initialize s dir cap os)) = Some (EventQueue_new cap)"
  by (simp add: initialize_def Let_def)

lemma handle_msgs_as_steps:
  "\<forall>(msg, os) \<in> set msgs. event msg AND UFFD_EVENT_PAGEFAULT \<noteq> 0 \<Longrightarrow>
     map_option (\<lambda>s'. (s', out)) (handle_msgs s msgs) =
       run_steps s out (map (\<lambda>(msg, os). Fault msg os) msgs)"
proof (induction msgs arbitrary: s)
  case Nil
  then show ?case by simp
next
  case (Cons m msgs)
  obtain msg os where m: "m = (msg, os)" by (cases m)
  show ?case
  proof (cases "handlePageFault s msg os")
    case None
    with Cons.prems m show ?thesis by simp
  next
    case (Some s')
    with Cons.prems m Cons.IH [of s'] show ?thesis by simp
  qed
qed

section \<open>Registration\<close>

text \<open>
  Claim C5, as the spec states it: \<^verbatim>\<open>registerPage\<close> returns the empty id and
  inserts nothing when the base address is not page-aligned or the length is zero.
  The code checks neither: on an initialised core the base \<open>0x10001\<close> with length
  \<open>0\<close> gets an id and a descriptor.
\<close>

theorem C5_registerPage_unchecked_counterexample:
  "(0x10001 :: addr) AND (PAGE_SIZE - 1) \<noteq> 0 \<and>
   (0 :: 64 word) \<le> 0 \<and>
   fst (registerPage core_initialized 0x10001 0 ''v'' 1 whole_page reg_os) = Inr ''var-1000-0'' \<and>
   map_option var_page_base
     (variables_' (snd (registerPage core_initialized 0x10001 0 ''v'' 1 whole_page reg_os))
        ''var-1000-0'') = Some 0x10001 \<and>
   map_option page_size
     (variables_' (snd (registerPage core_initialized 0x10001 0 ''v'' 1 whole_page reg_os))
        ''var-1000-0'') = Some 0 \<and>
   variables_' core_initialized ''var-1000-0'' = None"
  by (simp add: registerPage_def state_core_initialized Let_def reg_os_def PAGE_SIZE_def
      vector_max_size_def to_string_1000 dec_digits_0 read_bytes_def core_initialized_def
      initialize_def WatcherCoreImpl_new_def os_ok_def)

text \<open>
  Claim C5, amended. \<^verbatim>\<open>registerPage\<close> checks neither the alignment of the base nor
  the length. It returns the empty variable-id and inserts no descriptor when the
  state is STOPPED or ERROR, or the state is RUNNING or PAUSED and the
  \<^verbatim>\<open>UFFDIO_REGISTER\<close> ioctl fails, or, once the snapshot buffer is allocated, the base
  address is null. It returns nothing and throws, inserting no descriptor, when the
  buffer of \<^verbatim>\<open>page_size\<close> bytes cannot be built (\<^verbatim>\<open>std::length_error\<close> for a length
  above the vector's \<^verbatim>\<open>max_size()\<close>, \<^verbatim>\<open>std::bad_alloc\<close> when memory is refused), and
  it throws \<^verbatim>\<open>std::bad_alloc\<close> when a later copy of the pre-image cannot be
  allocated. In every other case, whatever the alignment of the base and whatever the
  length, it returns a non-empty id and inserts under it a descriptor with the given
  base and length and a pre-image of that length.
\<close>

theorem C5_registerPage_checks:
  "(register_refused s os \<longrightarrow>
      fst (registerPage s base psize nm fl depth os) = Inr [] \<and>
      variables_' (snd (registerPage s base psize nm fl depth os)) = variables_' s) \<and>
   (\<not> register_refused s os \<and> snapshot_exception psize os = Some e \<longrightarrow>
      fst (registerPage s base psize nm fl depth os) = Inl e \<and>
      variables_' (snd (registerPage s base psize nm fl depth os)) = variables_' s) \<and>
   (\<not> register_refused s os \<and> snapshot_exception psize os = None \<and> base = 0 \<longrightarrow>
      fst (registerPage s base psize nm fl depth os) = Inr [] \<and>
      variables_' (snd (registerPage s base psize nm fl depth os)) = variables_' s) \<and>
   (\<not> register_refused s os \<and> snapshot_exception psize os = None \<and> base \<noteq> 0 \<and>
    \<not> copies_allocated psize os \<longrightarrow>
      fst (registerPage s base psize nm fl depth os) = Inl bad_alloc \<and>
      (\<not> meta_alloc_ok os \<longrightarrow>
         variables_' (snd (registerPage s base psize nm fl depth os)) = variables_' s)) \<and>
   (\<not> register_refused s os \<and> snapshot_exception psize os = None \<and> base \<noteq> 0 \<and>
    copies_allocated psize os \<longrightarrow>
      (\<exists>vid. fst (registerPage s base psize nm fl depth os) = Inr vid \<and> vid \<noteq> [] \<and>
         variables_' (snd (registerPage s base psize nm fl depth os)) =
           (variables_' s)(vid \<mapsto>
             \<lparr>variable_id = vid, var_page_base = base, page_size = psize, name = nm,
              flags = fl, mutation_depth = depth,
              initial_snapshot = read_bytes (memory os) base psize,
              registered_at = now_registered os\<rparr>) \<and>
         length (read_bytes (memory os) base psize) = unat psize))"
  by (auto simp add: registerPage_def register_refused_def snapshot_exception_def
      copies_allocated_def Let_def read_bytes_length split: if_splits)

theorem C5_registerPage_checks_witness:
  "register_refused core_error reg_os \<and>
   fst (registerPage core_error 0x10000 4096 ''v'' 1 whole_page reg_os) = Inr [] \<and>
   variables_' (snd (registerPage core_error 0x10000 4096 ''v'' 1 whole_page reg_os)) =
     variables_' core_error \<and>
   \<not> register_refused core_initialized reg_os \<and>
   snapshot_exception 0xFFFFFFFFFFFFFFFF reg_os = Some length_error \<and>
   fst (registerPage core_initialized 0x10000 0xFFFFFFFFFFFFFFFF ''v'' 1 whole_page reg_os)
     = Inl length_error \<and>
   snapshot_exception 4096 reg_os = None \<and>
   fst (registerPage core_initialized 0 4096 ''v'' 1 whole_page reg_os) = Inr [] \<and>
   \<not> register_refused core_initialized reg_os_no_memory \<and>
   snapshot_exception 4096 reg_os_no_memory = None \<and>
   \<not> copies_allocated 4096 reg_os_no_memory \<and>
   fst (registerPage core_initialized 0x10000 4096 ''v'' 1 whole_page reg_os_no_memory)
     = Inl bad_alloc \<and>
   snapshot_exception 0 reg_os = None \<and>
   copies_allocated 0 reg_os \<and>
   (\<exists>vid. fst (registerPage core_initialized 0x10001 0 ''v'' 1 whole_page reg_os) = Inr vid \<and>
      vid \<noteq> [])"
proof -
  have f: "register_refused core_error reg_os"
    using state_core_error by (simp add: register_refused_def getState_def)
  have n: "\<not> register_refused core_initialized reg_os"
    "\<not> register_refused core_initialized reg_os_no_memory"
    by (simp_all add: register_refused_def state_core_initialized)
  have x: "snapshot_exception 0xFFFFFFFFFFFFFFFF reg_os = Some length_error"
    "snapshot_exception 4096 reg_os = None"
    "snapshot_exception 4096 reg_os_no_memory = None"
    "snapshot_exception 0 reg_os = None"
    by (simp_all add: snapshot_exception_def vector_max_size_def reg_os_def reg_os_no_memory_def)
  have c: "\<not> copies_allocated 4096 reg_os_no_memory" "copies_allocated 0 reg_os"
    by (simp_all add: copies_allocated_def reg_os_no_memory_def)
  have z: "(0x10000 :: addr) \<noteq> 0" "(0x10001 :: addr) \<noteq> 0"
    by simp_all
  have w1: "fst (registerPage core_error 0x10000 4096 ''v'' 1 whole_page reg_os) = Inr [] \<and>
      variables_' (snd (registerPage core_error 0x10000 4096 ''v'' 1 whole_page reg_os)) =
        variables_' core_error"
    using f C5_registerPage_checks [where s = core_error and os = reg_os and base = "0x10000"
      and psize = 4096 and nm = "''v''" and fl = 1 and depth = whole_page, THEN conjunct1]
    by simp
  have w2: "fst (registerPage core_initialized 0x10000 0xFFFFFFFFFFFFFFFF ''v'' 1 whole_page reg_os)
      = Inl length_error"
    using n(1) x(1)
      C5_registerPage_checks [where s = core_initialized and os = reg_os and base = "0x10000"
        and psize = "0xFFFFFFFFFFFFFFFF" and nm = "''v''" and fl = 1 and depth = whole_page
        and e = length_error, THEN conjunct2, THEN conjunct1]
    by simp
  have w3: "fst (registerPage core_initialized 0 4096 ''v'' 1 whole_page reg_os) = Inr []"
    using n(1) x(2)
      C5_registerPage_checks [where s = core_initialized and os = reg_os and base = 0
        and psize = 4096 and nm = "''v''" and fl = 1 and depth = whole_page,
        THEN conjunct2, THEN conjunct2, THEN conjunct1]
    by simp
  have w4: "fst (registerPage core_initialized 0x10000 4096 ''v'' 1 whole_page reg_os_no_memory)
      = Inl bad_alloc"
    using n(2) x(3) c(1) z(1)
      C5_registerPage_checks [where s = core_initialized and os = reg_os_no_memory
        and base = "0x10000" and psize = 4096 and nm = "''v''" and fl = 1 and depth = whole_page,
        THEN conjunct2, THEN conjunct2, THEN conjunct2, THEN conjunct1]
    by simp
  have w5: "\<exists>vid. fst (registerPage core_initialized 0x10001 0 ''v'' 1 whole_page reg_os) = Inr vid \<and>
      vid \<noteq> []"
    using n(1) x(4) c(2) z(2)
      C5_registerPage_checks [where s = core_initialized and os = reg_os and base = "0x10001"
        and psize = 0 and nm = "''v''" and fl = 1 and depth = whole_page,
        THEN conjunct2, THEN conjunct2, THEN conjunct2, THEN conjunct2]
    by blast
  from f n x c w1 w2 w3 w4 w5
  show ?thesis by (intro conjI) (rule TrueI | assumption | erule conjunct1 | erule conjunct2)+
qed

section \<open>Snapshots and metadata\<close>

text \<open>
  Claim C8. Whenever \<^verbatim>\<open>writeSnapshot(id, bytes)\<close> succeeds, a \<^verbatim>\<open>readSnapshot(id)\<close>
  on the resulting core returns exactly \<open>bytes\<close>.
\<close>

theorem C8_snapshot_round_trip:
  "fst (writeSnapshot s vid bytes) \<Longrightarrow> readSnapshot (snd (writeSnapshot s vid bytes)) vid = bytes"
  by (simp add: writeSnapshot_def readSnapshot_def split: option.splits)

theorem C8_snapshot_round_trip_witness:
  "fst (writeSnapshot core_registered ''var-1000-0'' [0x41, 0x41, 0x41, 0x41]) \<and>
   readSnapshot (snd (writeSnapshot core_registered ''var-1000-0'' [0x41, 0x41, 0x41, 0x41]))
     ''var-1000-0'' = [0x41, 0x41, 0x41, 0x41]"
proof -
  have ok: "fst (writeSnapshot core_registered ''var-1000-0'' [0x41, 0x41, 0x41, 0x41])"
    by (simp add: writeSnapshot_def core_registered_variables)
  from ok C8_snapshot_round_trip [OF ok] show ?thesis by simp
qed

text \<open>
  Claim C6, as the spec states it: \<^verbatim>\<open>writeSnapshot\<close> succeeds only when the length
  of the bytes equals the descriptor's length. The code does not compare lengths: on
  a descriptor of length 4 an empty byte sequence is accepted and replaces the stored
  pre-image.
\<close>

theorem C6_writeSnapshot_length_counterexample:
  "map_option page_size (variables_' core_registered ''var-1000-0'') = Some 4 \<and>
   readSnapshot core_registered ''var-1000-0'' = [0, 0, 0, 0] \<and>
   length ([] :: byte list) \<noteq> unat (4 :: 64 word) \<and>
   fst (writeSnapshot core_registered ''var-1000-0'' []) = True \<and>
   readSnapshot (snd (writeSnapshot core_registered ''var-1000-0'' [])) ''var-1000-0'' = []"
  by (simp add: writeSnapshot_def readSnapshot_def core_registered_variables)

text \<open>
  Claim C6, amended. For a registered variable-id \<^verbatim>\<open>writeSnapshot(id, bytes)\<close>
  succeeds for every byte sequence, whatever its length, and replaces the stored
  pre-image by it (the other fields of the descriptor and the other descriptors are
  kept); for an unknown variable-id it fails and leaves the core unchanged.
\<close>

theorem C6_writeSnapshot_any_length:
  "(variables_' s vid = Some m \<longrightarrow>
      fst (writeSnapshot s vid bytes) = True \<and>
      variables_' (snd (writeSnapshot s vid bytes)) =
        (variables_' s)(vid \<mapsto> m\<lparr>initial_snapshot := bytes\<rparr>) \<and>
      readSnapshot (snd (writeSnapshot s vid bytes)) vid = bytes) \<and>
   (variables_' s vid = None \<longrightarrow>
      fst (writeSnapshot s vid bytes) = False \<and> snd (writeSnapshot s vid bytes) = s)"
  by (simp add: writeSnapshot_def readSnapshot_def)

theorem C6_writeSnapshot_any_length_witness:
  "fst (writeSnapshot core_registered ''var-1000-0'' [0x41]) = True \<and>
   readSnapshot (snd (writeSnapshot core_registered ''var-1000-0'' [0x41])) ''var-1000-0'' = [0x41] \<and>
   fst (writeSnapshot core_registered ''no-such'' [0x41]) = False \<and>
   snd (writeSnapshot core_registered ''no-such'' [0x41]) = core_registered"
proof -
  have r: "variables_' core_registered ''var-1000-0'' =
      Some \<lparr>variable_id = ''var-1000-0'', var_page_base = 0x10000, page_size = 4, name = ''v'',
         flags = 1, mutation_depth = whole_page, initial_snapshot = [0, 0, 0, 0],
         registered_at = 1001\<rparr>"
    by (simp add: core_registered_variables)
  have n: "variables_' core_registered ''no-such'' = None"
    by (simp add: core_registered_variables)
  from r n
    C6_writeSnapshot_any_length [of core_registered "''var-1000-0''" _ "[0x41]"]
    C6_writeSnapshot_any_length [of core_registered "''no-such''" _ "[0x41]"]
  show ?thesis by blast
qed

text \<open>
  Claim C7, as the spec states it: \<^verbatim>\<open>updateMetadata\<close> preserves the original
  variable-id and registered-at timestamp. The code assigns the argument to the map
  entry: the stored descriptor afterwards carries the argument's variable-id and
  timestamp.
\<close>

theorem C7_updateMetadata_counterexample:
  "map_option variable_id (variables_' core_registered ''var-1000-0'') = Some ''var-1000-0'' \<and>
   map_option registered_at (variables_' core_registered ''var-1000-0'') = Some 1001 \<and>
   fst (updateMetadata core_registered ''var-1000-0'' other_metadata) = True \<and>
   map_option variable_id
     (variables_' (snd (updateMetadata core_registered ''var-1000-0'' other_metadata)) ''var-1000-0'')
     = Some ''other'' \<and>
   map_option registered_at
     (variables_' (snd (updateMetadata core_registered ''var-1000-0'' other_metadata)) ''var-1000-0'')
     = Some 7"
  by (simp add: updateMetadata_def core_registered_variables other_metadata_def)

text \<open>
  Claim C7, amended. For a registered variable-id a call
  \<^verbatim>\<open>updateMetadata(id, descriptor)\<close> succeeds and replaces the stored descriptor
  wholesale by the argument, its variable-id and registered-at fields included; the
  entry stays under the key \<open>id\<close> and nothing else of the core changes.
\<close>

theorem C7_updateMetadata_replaces_all:
  "variables_' s vid = Some m \<Longrightarrow>
     fst (updateMetadata s vid metadata) = True \<and>
     variables_' (snd (updateMetadata s vid metadata)) = (variables_' s)(vid \<mapsto> metadata) \<and>
     map_option variable_id (variables_' (snd (updateMetadata s vid metadata)) vid)
       = Some (variable_id metadata) \<and>
     map_option registered_at (variables_' (snd (updateMetadata s vid metadata)) vid)
       = Some (registered_at metadata) \<and>
     snd (updateMetadata s vid metadata) = s\<lparr>variables_' := (variables_' s)(vid \<mapsto> metadata)\<rparr>"
  by (simp add: updateMetadata_def)

theorem C7_updateMetadata_replaces_all_witness:
  "fst (updateMetadata core_registered ''var-1000-0'' other_metadata) = True \<and>
   variables_' (snd (updateMetadata core_registered ''var-1000-0'' other_metadata)) ''var-1000-0''
     = Some other_metadata"
proof -
  have r: "variables_' core_registered ''var-1000-0'' =
      Some \<lparr>variable_id = ''var-1000-0'', var_page_base = 0x10000, page_size = 4, name = ''v'',
         flags = 1, mutation_depth = whole_page, initial_snapshot = [0, 0, 0, 0],
         registered_at = 1001\<rparr>"
    by (simp add: core_registered_variables)
  from C7_updateMetadata_replaces_all [OF r, of other_metadata]
  show ?thesis by simp
qed

section \<open>Lifecycle\<close>

text \<open>
  Claim C9. \<^verbatim>\<open>start\<close> on a core in state UNINITIALIZED returns false, the state
  observed by \<^verbatim>\<open>getState\<close> is still UNINITIALIZED, and \<^verbatim>\<open>getErrorMessage\<close> then
  returns a string that contains "not initialized"; nothing but the error message
  changes.
\<close>

theorem C9_start_uninitialized:
  "getState s = UNINITIALIZED \<Longrightarrow>
     fst (start s) = False \<and>
     getState (snd (start s)) = UNINITIALIZED \<and>
     sublist ''not initialized'' (getErrorMessage (snd (start s))) \<and>
     snd (start s) = s\<lparr>error_message_' := ''Core not initialized''\<rparr>"
  by (simp add: start_def getState_def getErrorMessage_def sublist_not_initialized)

theorem C9_start_uninitialized_witness:
  "getState WatcherCoreImpl_new = UNINITIALIZED \<and>
   fst (start WatcherCoreImpl_new) = False \<and>
   getState (snd (start WatcherCoreImpl_new)) = UNINITIALIZED \<and>
   sublist ''not initialized'' (getErrorMessage (snd (start WatcherCoreImpl_new)))"
proof -
  have u: "getState WatcherCoreImpl_new = UNINITIALIZED"
    by (simp add: getState_def WatcherCoreImpl_new_def)
  from u C9_start_uninitialized [OF u] show ?thesis by blast
qed

text \<open>
  Claim C10. \<^verbatim>\<open>stop\<close> on a core in state UNINITIALIZED returns true and changes
  nothing: the state stays UNINITIALIZED (it does not become STOPPED) and the thread
  objects are untouched. On a core in state ERROR, \<^verbatim>\<open>stop\<close> returns false and changes
  nothing.
\<close>

theorem C10_stop_without_initialize:
  "(getState s = UNINITIALIZED \<longrightarrow>
      fst (stop s timeout_ms) = True \<and> snd (stop s timeout_ms) = s \<and>
      getState (snd (stop s timeout_ms)) = UNINITIALIZED) \<and>
   (getState s = ERROR \<longrightarrow>
      fst (stop s timeout_ms) = False \<and> snd (stop s timeout_ms) = s)"
  by (simp add: stop_def getState_def)

theorem C10_stop_without_initialize_witness:
  "getState WatcherCoreImpl_new = UNINITIALIZED \<and>
   fst (stop WatcherCoreImpl_new 5000) = True \<and>
   getState (snd (stop WatcherCoreImpl_new 5000)) = UNINITIALIZED \<and>
   handler_thread_' (snd (stop WatcherCoreImpl_new 5000)) = False \<and>
   getState core_error = ERROR \<and>
   fst (stop core_error 5000) = False"
proof -
  have u: "getState WatcherCoreImpl_new = UNINITIALIZED"
    by (simp add: getState_def WatcherCoreImpl_new_def)
  have h: "handler_thread_' WatcherCoreImpl_new = False"
    by (simp add: WatcherCoreImpl_new_def)
  from u h state_core_error
    C10_stop_without_initialize [of WatcherCoreImpl_new 5000]
    C10_stop_without_initialize [of core_error 5000]
  show ?thesis by simp
qed

section \<open>The fast path and the queue\<close>

text \<open>
  Claim C1 (the code falls short of it). With the core RUNNING and one registered page
  of 4096 zero bytes at \<open>0x10000\<close>, a write fault at offset 128 is handled by the fast
  path: the queue then holds one fast-path event whose page base is that of the
  registered page. \<^verbatim>\<open>dequeueEvent\<close> nevertheless returns no event, after any number of
  turns of \<^verbatim>\<open>slowPathLoop\<close>: its body returns the null pointer and the worker loop
  never dequeues, enriches or computes a delta.
\<close>

theorem C1_no_enriched_event:
  "getState core_watching = RUNNING \<and>
   map_option var_page_base (variables_' core_watching ''var-1000-0'') = Some 0x10000 \<and>
   map_option initial_snapshot (variables_' core_watching ''var-1000-0'') = Some (replicate 4096 0) \<and>
   address fault_msg = 0x10000 + 128 \<and>
   map_option (map page_base \<circ> queued)
     (handlerLoop_turn core_watching 1 [(fault_msg, fault_os_ok)]) = Some [0x10000] \<and>
   map_option (\<lambda>s. fst (dequeueEvent ((slowPathLoop_turn ^^ n) s)))
     (handlerLoop_turn core_watching 1 [(fault_msg, fault_os_ok)]) = Some None"
proof -
  have ev: "event fault_msg AND UFFD_EVENT_PAGEFAULT \<noteq> 0"
    by (simp add: fault_msg_def UFFD_EVENT_PAGEFAULT_def)
  have r: "size_' (EventQueue_new 2) < capacity_' (EventQueue_new 2)"
    by (simp add: EventQueue_new_def)
  have one: "handlePageFault core_watching fault_msg fault_os_ok =
      Some (core_watching\<lparr>event_queue_' :=
              Some ((EventQueue_new 2)\<lparr>nodes_' := nodes_' (EventQueue_new 2) @ [fault_event],
                       size_' := size_' (EventQueue_new 2) + 1\<rparr>),
            events_received_' := events_received_' core_watching + 1,
            events_dropped_' := events_dropped_' core_watching + ioctl_drops fault_os_ok\<rparr>)"
    using handlePageFault_room [OF core_watching_fields(3) r, of fault_msg fault_os_ok]
    by (simp add: make_event_example)
  have turn: "handlerLoop_turn core_watching 1 [(fault_msg, fault_os_ok)] =
      handlePageFault core_watching fault_msg fault_os_ok"
    using ev one by (simp add: handlerLoop_turn_def core_watching_fields)
  show ?thesis
    unfolding turn one
    by (simp add: getState_def core_watching_fields fault_msg_def queued_def EventQueue_new_def
        fault_event_def dequeueEvent_def slowPathLoop_turns)
qed

text \<open>
  Claim C2, as the spec states it: in state PAUSED the fast path never enqueues an
  event. The code does not look at the state: on a paused core with an empty queue
  one turn of the handler loop over one fault record leaves the event in the queue and
  counts it as received.
\<close>

theorem C2_paused_enqueues_counterexample:
  "getState core_paused = PAUSED \<and>
   queued core_paused = [] \<and>
   map_option queued (handlerLoop_turn core_paused 1 [(fault_msg, fault_os_ok)]) = Some [fault_event] \<and>
   map_option events_received_' (handlerLoop_turn core_paused 1 [(fault_msg, fault_os_ok)]) = Some 1 \<and>
   map_option events_dropped_' (handlerLoop_turn core_paused 1 [(fault_msg, fault_os_ok)]) = Some 0"
proof -
  have ev: "event fault_msg AND UFFD_EVENT_PAGEFAULT \<noteq> 0"
    by (simp add: fault_msg_def UFFD_EVENT_PAGEFAULT_def)
  have d: "ioctl_drops fault_os_ok = 0"
    by (simp add: ioctl_drops_def ioctl_failed_def fault_os_ok_def)
  have one: "handlePageFault core_paused fault_msg fault_os_ok =
      Some (core_paused\<lparr>event_queue_' :=
              Some \<lparr>nodes_' = [fault_event], capacity_' = 2, size_' = 1\<rparr>,
            events_received_' := 1\<rparr>)"
    by (cases core_paused)
      (use core_paused_fields in \<open>simp add: handlePageFault_room [where q = "EventQueue_new 2"]
        EventQueue_new_def make_event_example d\<close>)
  show ?thesis
    using ev one
    by (simp add: handlerLoop_turn_def core_paused_fields getState_def queued_def EventQueue_new_def)
qed

text \<open>
  Claim C2, amended. In state PAUSED the fast-path handler treats a fault record
  exactly as in state RUNNING: if the queue has room the event is enqueued and
  \<^verbatim>\<open>events_received\<close> grows by one; if the queue is full nothing is enqueued and
  \<^verbatim>\<open>events_dropped\<close>, the counter of queue-full drops, grows by one (in both cases
  \<^verbatim>\<open>events_dropped\<close> grows by one more when a write-protect ioctl fails). There is
  no separate count of records dropped because of the pause.
\<close>

theorem C2_paused_handled_as_running:
  "state_' s = PAUSED \<Longrightarrow> event_queue_' s = Some q \<Longrightarrow>
     handlePageFault s msg os =
       map_option (\<lambda>t. t\<lparr>state_' := PAUSED\<rparr>) (handlePageFault (s\<lparr>state_' := RUNNING\<rparr>) msg os) \<and>
     map_option state_' (handlePageFault s msg os) = Some PAUSED \<and>
     (size_' q < capacity_' q \<longrightarrow>
        map_option queued (handlePageFault s msg os) = Some (nodes_' q @ [make_event msg os]) \<and>
        map_option events_received_' (handlePageFault s msg os) = Some (events_received_' s + 1) \<and>
        map_option events_dropped_' (handlePageFault s msg os) =
          Some (events_dropped_' s + ioctl_drops os)) \<and>
     (capacity_' q \<le> size_' q \<longrightarrow>
        map_option queued (handlePageFault s msg os) = Some (nodes_' q) \<and>
        map_option events_received_' (handlePageFault s msg os) = Some (events_received_' s) \<and>
        map_option events_dropped_' (handlePageFault s msg os) =
          Some (events_dropped_' s + 1 + ioctl_drops os))"
proof -
  assume p: "state_' s = PAUSED" and q: "event_queue_' s = Some q"
  have same: "handlePageFault s msg os =
       map_option (\<lambda>t. t\<lparr>state_' := PAUSED\<rparr>) (handlePageFault (s\<lparr>state_' := RUNNING\<rparr>) msg os)"
    using p q by (cases s) (auto simp add: handlePageFault_def Let_def split: prod.splits)
  have st: "map_option state_' (handlePageFault s msg os) = Some PAUSED"
    using p q by (cases "size_' q < capacity_' q")
      (simp_all add: handlePageFault_room handlePageFault_full not_less)
  have room: "size_' q < capacity_' q \<longrightarrow>
        map_option queued (handlePageFault s msg os) = Some (nodes_' q @ [make_event msg os]) \<and>
        map_option events_received_' (handlePageFault s msg os) = Some (events_received_' s + 1) \<and>
        map_option events_dropped_' (handlePageFault s msg os) =
          Some (events_dropped_' s + ioctl_drops os)"
    using q by (simp add: handlePageFault_room queued_def)
  have full: "capacity_' q \<le> size_' q \<longrightarrow>
        map_option queued (handlePageFault s msg os) = Some (nodes_' q) \<and>
        map_option events_received_' (handlePageFault s msg os) = Some (events_received_' s) \<and>
        map_option events_dropped_' (handlePageFault s msg os) =
          Some (events_dropped_' s + 1 + ioctl_drops os)"
    using q by (simp add: handlePageFault_full queued_def)
  from same st room full show ?thesis by blast
qed

theorem C2_paused_handled_as_running_witness:
  "state_' core_paused = PAUSED \<and>
   event_queue_' core_paused = Some (EventQueue_new 2) \<and>
   size_' (EventQueue_new 2) < capacity_' (EventQueue_new 2) \<and>
   map_option queued (handlePageFault core_paused fault_msg fault_os_ok) = Some [fault_event] \<and>
   map_option events_received_' (handlePageFault core_paused fault_msg fault_os_ok) = Some 1 \<and>
   state_' (core_full\<lparr>state_' := PAUSED\<rparr>) = PAUSED \<and>
   event_queue_' (core_full\<lparr>state_' := PAUSED\<rparr>) = Some full_queue \<and>
   capacity_' full_queue \<le> size_' full_queue \<and>
   map_option queued (handlePageFault (core_full\<lparr>state_' := PAUSED\<rparr>) fault_msg fault_os_ok)
     = Some [fault_event, fault_event] \<and>
   map_option events_dropped_' (handlePageFault (core_full\<lparr>state_' := PAUSED\<rparr>) fault_msg fault_os_ok)
     = Some 1"
proof -
  have d: "ioctl_drops fault_os_ok = 0"
    by (simp add: ioctl_drops_def ioctl_failed_def fault_os_ok_def)
  have r: "size_' (EventQueue_new 2) < capacity_' (EventQueue_new 2)"
    by (simp add: EventQueue_new_def)
  have n: "nodes_' (EventQueue_new 2) = []"
    by (simp add: EventQueue_new_def)
  have f: "capacity_' full_queue \<le> size_' full_queue" "nodes_' full_queue = [fault_event, fault_event]"
    by (simp_all add: full_queue_def)
  have c: "event_queue_' (core_full\<lparr>state_' := PAUSED\<rparr>) = Some full_queue"
     "events_dropped_' (core_full\<lparr>state_' := PAUSED\<rparr>) = 0"
    by (simp_all add: core_full_def core_running_fields)
  have p1: "state_' core_paused = PAUSED" and q1: "event_queue_' core_paused = Some (EventQueue_new 2)"
    by (simp_all add: core_paused_fields)
  have p2: "state_' (core_full\<lparr>state_' := PAUSED\<rparr>) = PAUSED"
    by simp
  from d r n f c p1 q1 core_paused_fields(2,3) make_event_example
    C2_paused_handled_as_running [OF p1 q1, of fault_msg fault_os_ok, THEN conjunct2]
    C2_paused_handled_as_running [OF p2 c(1), of fault_msg fault_os_ok, THEN conjunct2]
  show ?thesis by simp
qed

text \<open>
  Claim C3, as the spec states it: after any sequence of fault records
  \<^verbatim>\<open>events_received + events_dropped\<close> equals the number of records. The code also
  counts a drop when a write-protect ioctl fails, after it has counted the record as
  received: one record whose unprotect step fails leaves the sum at 2.
\<close>

theorem C3_metrics_sum_counterexample:
  "events_received (getMetrics core_running) = 0 \<and>
   events_dropped (getMetrics core_running) = 0 \<and>
   length [(fault_msg, fault_os_unprotect_fails)] = 1 \<and>
   map_option (\<lambda>s. unat (events_received (getMetrics s)) + unat (events_dropped (getMetrics s)))
     (handlerLoop_turn core_running 1 [(fault_msg, fault_os_unprotect_fails)]) = Some 2"
proof -
  have ev: "event fault_msg AND UFFD_EVENT_PAGEFAULT \<noteq> 0"
    by (simp add: fault_msg_def UFFD_EVENT_PAGEFAULT_def)
  have d: "ioctl_drops fault_os_unprotect_fails = 1"
    by (simp add: ioctl_drops_def ioctl_failed_def fault_os_unprotect_fails_def)
  have one: "handlePageFault core_running fault_msg fault_os_unprotect_fails =
      Some (core_running\<lparr>event_queue_' :=
              Some \<lparr>nodes_' = [fault_event], capacity_' = 2, size_' = 1\<rparr>,
            events_received_' := 1, events_dropped_' := 1\<rparr>)"
    by (cases core_running)
      (use core_running_fields in \<open>simp add: handlePageFault_room [where q = "EventQueue_new 2"]
        EventQueue_new_def make_event_example_fail d\<close>)
  show ?thesis
    using ev one
    by (simp add: handlerLoop_turn_def core_running_fields getMetrics_def)
qed

text \<open>
  Claim C3, amended. From a core with an empty queue and both counters at zero, after
  any interleaving of fault records handled by the fast path and of dequeues by the
  consumer (the counters not overflowing), \<^verbatim>\<open>events_received + events_dropped\<close>
  equals the number of records plus the number of records for which a write-protect
  ioctl failed (so it equals the number of records when every ioctl succeeds), and the
  number of events dequeued is at most \<^verbatim>\<open>events_received\<close>. The run always
  completes.
\<close>

theorem C3_metrics_accounting:
  assumes "event_queue_' s = Some (EventQueue_new cap)"
    and "events_received_' s = 0" and "events_dropped_' s = 0"
    and "n_faults steps + n_ioctl_failures steps < 2 ^ 64"
  shows "\<exists>s' out.
           run_steps s [] steps = Some (s', out) \<and>
           unat (events_received (getMetrics s')) + unat (events_dropped (getMetrics s'))
             = n_faults steps + n_ioctl_failures steps \<and>
           length out \<le> unat (events_received (getMetrics s'))"
proof -
  from run_steps_accounting [OF assms(1) queue_consistent_new, of "[]" steps]
  obtain s' out and q' :: EventQueue and k where
    r: "run_steps s [] steps = Some (s', out)" and
    k: "k \<le> n_faults steps" and
    rec: "events_received_' s' = events_received_' s + of_nat k" and
    drp: "events_dropped_' s' =
       events_dropped_' s + of_nat (n_faults steps - k + n_ioctl_failures steps)" and
    len: "length out + length (nodes_' q') = length ([] :: FastPathEvent list) + length (nodes_' (EventQueue_new cap)) + k"
    by blast
  have k64: "k < 2 ^ 64" and d64: "n_faults steps - k + n_ioctl_failures steps < 2 ^ 64"
    using k assms(4) by simp_all
  have urec: "unat (events_received_' s') = k"
    using rec assms(2) k64 by (simp add: unat_of_nat_64)
  have dr: "word_of_nat (n_faults steps - k + n_ioctl_failures steps) = events_dropped_' s'"
    using drp assms(3) by (simp del: of_nat_add)
  have udrp: "unat (events_dropped_' s') = n_faults steps - k + n_ioctl_failures steps"
    by (rule of_nat_inverse [OF dr]) (use d64 in simp)
  have total: "unat (events_received (getMetrics s')) + unat (events_dropped (getMetrics s'))
      = n_faults steps + n_ioctl_failures steps"
    using urec udrp k by (simp add: getMetrics_def)
  have deq: "length out \<le> unat (events_received (getMetrics s'))"
    using len urec by (simp add: getMetrics_def EventQueue_new_def)
  from r total deq show ?thesis by blast
qed

theorem C3_metrics_accounting_witness:
  "event_queue_' core_running = Some (EventQueue_new 2) \<and>
   events_received_' core_running = 0 \<and> events_dropped_' core_running = 0 \<and>
   n_faults example_steps = 4 \<and> n_ioctl_failures example_steps = 1 \<and>
   (\<exists>s' out.
      run_steps core_running [] example_steps = Some (s', out) \<and>
      unat (events_received (getMetrics s')) + unat (events_dropped (getMetrics s')) = 5 \<and>
      length out \<le> unat (events_received (getMetrics s')))"
proof -
  have n: "n_faults example_steps = 4" "n_ioctl_failures example_steps = 1"
    by (simp_all add: example_steps_def ioctl_failed_def fault_os_ok_def fault_os_unprotect_fails_def)
  have b: "n_faults example_steps + n_ioctl_failures example_steps < 2 ^ 64"
    using n by simp
  from n core_running_fields(1,2,3)
    C3_metrics_accounting [OF core_running_fields(1) core_running_fields(2) core_running_fields(3) b]
  show ?thesis by simp
qed

text \<open>
  Claim C4. Along every sequence of \<^verbatim>\<open>enqueue\<close> and \<^verbatim>\<open>dequeue\<close> calls on a queue
  created with capacity \<open>cap\<close>, the depth (the counter and the number of stored
  events) never exceeds \<open>cap\<close>. An \<^verbatim>\<open>enqueue\<close> on a queue whose depth equals its
  capacity returns false and leaves the queue as it was; the fast path, which makes
  that call, then leaves the queue and \<^verbatim>\<open>events_received\<close> unchanged and increments
  \<^verbatim>\<open>events_dropped\<close> for the refused event (and once more if a write-protect ioctl
  fails).
\<close>

theorem C4_queue_bound:
  "size_queue (run_queue_ops (EventQueue_new cap) ops) \<le> cap \<and>
   length (nodes_' (run_queue_ops (EventQueue_new cap) ops)) \<le> unat cap \<and>
   (size_queue q = capacity_' q \<longrightarrow> enqueue q ev = (False, q)) \<and>
   (event_queue_' s = Some q \<and> size_queue q = capacity_' q \<longrightarrow>
      map_option queued (handlePageFault s msg os) = Some (nodes_' q) \<and>
      map_option event_queue_' (handlePageFault s msg os) = Some (Some q) \<and>
      map_option events_received_' (handlePageFault s msg os) = Some (events_received_' s) \<and>
      map_option events_dropped_' (handlePageFault s msg os) =
        Some (events_dropped_' s + 1 + ioctl_drops os))"
proof -
  let ?q = "run_queue_ops (EventQueue_new cap) ops"
  have inv: "queue_consistent ?q" and cap: "capacity_' ?q = cap"
    using run_queue_ops_invariant [OF queue_consistent_new, of cap ops]
    by (simp_all add: EventQueue_new_def)
  have bound: "size_queue ?q \<le> cap"
    using inv cap by (simp add: queue_consistent_def size_queue_def)
  have len: "length (nodes_' ?q) \<le> unat cap"
    using inv cap by (simp add: queue_consistent_def word_le_nat_alt)
  have full: "size_queue q = capacity_' q \<longrightarrow> enqueue q ev = (False, q)"
    by (simp add: size_queue_def enqueue_full)
  have drop: "event_queue_' s = Some q \<and> size_queue q = capacity_' q \<longrightarrow>
      map_option queued (handlePageFault s msg os) = Some (nodes_' q) \<and>
      map_option event_queue_' (handlePageFault s msg os) = Some (Some q) \<and>
      map_option events_received_' (handlePageFault s msg os) = Some (events_received_' s) \<and>
      map_option events_dropped_' (handlePageFault s msg os) =
        Some (events_dropped_' s + 1 + ioctl_drops os)"
    by (simp add: size_queue_def handlePageFault_full queued_def)
  from bound len full drop show ?thesis by blast
qed

theorem C4_queue_bound_witness:
  "size_queue (run_queue_ops (EventQueue_new 1) [Enqueue event_a, Enqueue fault_event, Dequeue]) \<le> 1 \<and>
   size_queue full_queue = capacity_' full_queue \<and>
   enqueue full_queue event_a = (False, full_queue) \<and>
   event_queue_' core_full = Some full_queue \<and>
   map_option queued (handlePageFault core_full fault_msg fault_os_ok) = Some (nodes_' full_queue) \<and>
   map_option events_received_' (handlePageFault core_full fault_msg fault_os_ok) = Some 2 \<and>
   map_option events_dropped_' (handlePageFault core_full fault_msg fault_os_ok) = Some 1"
proof -
  have f: "size_queue full_queue = capacity_' full_queue"
    by (simp add: size_queue_def full_queue_def)
  have q: "event_queue_' core_full = Some full_queue"
    by (simp add: core_full_def)
  have r: "events_received_' core_full = 2" "events_dropped_' core_full = 0"
    by (simp_all add: core_full_def core_running_fields)
  have d: "ioctl_drops fault_os_ok = 0"
    by (simp add: ioctl_drops_def ioctl_failed_def fault_os_ok_def)
  from f q r d
    C4_queue_bound [of 1 "[Enqueue event_a, Enqueue fault_event, Dequeue]" full_queue event_a
      core_full fault_msg fault_os_ok]
  show ?thesis by simp
qed

end
